theory Spec2Isabelle
  imports Complex_Main "HOL-Library.Word"
begin

section \<open>Scalars and machine integers\<close>

text \<open>
  \<^verbatim>\<open>math::Scalar\<close> is a single-precision float in the firmware. Its values are
  modelled by the reals, with the comparisons and the clamps taken exactly; infinities
  and NaN are left out. \<^verbatim>\<open>unsigned\<close> is 32 bits wide on the target (Cortex-M4) and
  \<^verbatim>\<open>std::uint64_t\<close> is 64 bits wide; both wrap around.
\<close>

type_synonym Scalar = real
type_synonym unsigned = "32 word"
type_synonym uint64_t = "64 word"
type_synonym uint8_t = "8 word"

subsection \<open>Rounding\<close>

text \<open>
  A floating-point operation delivers the rounded exact result. The countdown of
  \<^verbatim>\<open>BeepingTask::onNextPWMPeriod\<close> and the two conversions between flux linkage and
  KV take the rounding as their first argument \<open>rnd\<close>: a theorem about them that is
  stated for every \<open>rnd\<close> holds whatever the floating-point unit rounds to. The
  reciprocal in the constructor of the task and the two other conversions are written
  with the exact operations.

  \<open>rnd32\<close> is the rounding of IEEE 754 binary32 in its default mode, to the nearest
  value with a 24-bit significand and ties to the even one, with the subnormal grid of
  spacing \<open>2^-149\<close> below \<open>2^-126\<close>. It is the rounding of the target for exact
  results within the finite range of the format; overflow to infinity is not part of it.
\<close>

definition round_half_even :: "real \<Rightarrow> int" where
  "round_half_even q =
     (let n = \<lfloor>q\<rfloor>; d = q - of_int n
      in if d < 1 / 2 then n else if d > 1 / 2 then n + 1
         else if even n then n else n + 1)"

definition ulp32 :: "real \<Rightarrow> real" where
  "ulp32 x = (if x = 0 then 2 powi (- 149) else 2 powi (max (- 126) \<lfloor>log 2 \<bar>x\<bar>\<rfloor> - 23))"

definition rnd32 :: "real \<Rightarrow> real" where
  "rnd32 x = of_int (round_half_even (x / ulp32 x)) * ulp32 x"

section \<open>foc/common.hpp\<close>

subsection \<open>CompleteParameterSet\<close>

text \<open>
  The four parameter groups are declared in other headers of the firmware, so their
  types are type parameters of the record and their \<^verbatim>\<open>isValid()\<close> methods are arguments of
  the functions below.
\<close>

record ('c, 'm, 'o, 'p) CompleteParameterSet =
  controller :: 'c
  motor :: 'm
  observer :: 'o
  pwm :: 'p

text \<open>
  \<^verbatim>\<open>bool isValid() const { return controller.isValid() && motor.isValid(); }\<close>
\<close>

definition isValid ::
  "('c \<Rightarrow> bool) \<Rightarrow> ('m \<Rightarrow> bool) \<Rightarrow> ('c, 'm, 'o, 'p) CompleteParameterSet \<Rightarrow> bool" where
  "isValid controller_isValid motor_isValid s =
     (controller_isValid (controller s) \<and> motor_isValid (motor s))"

text \<open>
  The invariant in the words of the specification: every one of the four constituent
  groups reports valid.
\<close>

definition every_group_valid ::
  "('c \<Rightarrow> bool) \<Rightarrow> ('m \<Rightarrow> bool) \<Rightarrow> ('o \<Rightarrow> bool) \<Rightarrow> ('p \<Rightarrow> bool) \<Rightarrow>
   ('c, 'm, 'o, 'p) CompleteParameterSet \<Rightarrow> bool" where
  "every_group_valid controller_isValid motor_isValid observer_isValid pwm_isValid s =
     (controller_isValid (controller s) \<and> motor_isValid (motor s) \<and>
      observer_isValid (observer s) \<and> pwm_isValid (pwm s))"

subsection \<open>EventCounter\<close>

record EventCounter =
  cnt :: uint64_t

definition EventCounter_init :: EventCounter where
  "EventCounter_init = \<lparr>cnt = 0\<rparr>"

text \<open>\<^verbatim>\<open>void increment() { cnt_++; }\<close>\<close>

definition increment :: "EventCounter \<Rightarrow> EventCounter" where
  "increment c = c\<lparr>cnt := cnt c + 1\<rparr>"

text \<open>\<^verbatim>\<open>std::uint64_t get() const { return cnt_; }\<close>: the value read and the
  object after the call.\<close>

definition get :: "EventCounter \<Rightarrow> uint64_t \<times> EventCounter" where
  "get c = (cnt c, c)"

subsection \<open>Unit conversions\<close>

text \<open>\<^verbatim>\<open>constexpr Scalar SquareRootOf3 = Scalar(1.7320508075688772);\<close>\<close>

definition SquareRootOf3 :: Scalar where
  "SquareRootOf3 = 17320508075688772 / 10000000000000000"

text \<open>
  Modelled from the spec: \<^verbatim>\<open>math::Pi\<close> is a constant of \<^verbatim>\<open>math/math.hpp\<close>, a header
  that is not part of this development; the specification writes it as the number \<open>\<pi>\<close>.
\<close>

definition Pi :: Scalar where
  "Pi = pi"

text \<open>
  In the two conversions between flux linkage and KV each product, the conversion of
  the pole count to a \<^verbatim>\<open>Scalar\<close> and the quotient are rounded. The conversions end
  in \<^verbatim>\<open>assert(false); return 0;\<close> when their precondition does not hold. \<open>AssertionFailure v\<close> records that the assertion was reached and that \<open>v\<close>
  is what the function returns when assertions are compiled out; \<open>Returned v\<close> is a
  return on the regular path.
\<close>

datatype Conversion = Returned Scalar | AssertionFailure Scalar

fun returned_value :: "Conversion \<Rightarrow> Scalar" where
  "returned_value (Returned v) = v"
| "returned_value (AssertionFailure v) = v"

fun asserted :: "Conversion \<Rightarrow> bool" where
  "asserted (Returned v) = False"
| "asserted (AssertionFailure v) = True"

definition convertFluxLinkageToKV :: "(real \<Rightarrow> Scalar) \<Rightarrow> Scalar \<Rightarrow> unsigned \<Rightarrow> Conversion" where
  "convertFluxLinkageToKV rnd flux_linkage num_poles =
     (if flux_linkage > 0 \<and> num_poles \<ge> 2 \<and> num_poles mod 2 = 0
      then Returned (rnd (rnd (20 * SquareRootOf3) /
                          rnd (rnd (Pi * flux_linkage) * rnd (real (unat num_poles)))))
      else AssertionFailure 0)"

definition convertKVToFluxLinkage :: "(real \<Rightarrow> Scalar) \<Rightarrow> Scalar \<Rightarrow> unsigned \<Rightarrow> Conversion" where
  "convertKVToFluxLinkage rnd kv num_poles =
     (if kv > 0 \<and> num_poles \<ge> 2 \<and> num_poles mod 2 = 0
      then Returned (rnd (rnd (20 * SquareRootOf3) /
                          rnd (rnd (Pi * kv) * rnd (real (unat num_poles)))))
      else AssertionFailure 0)"

definition convertAngularVelocityToRPM :: "Scalar \<Rightarrow> Conversion" where
  "convertAngularVelocityToRPM radian_per_sec =
     Returned ((radian_per_sec * 60) / (Pi * 2))"

definition convertRotationRateElectricalToMechanical :: "Scalar \<Rightarrow> unsigned \<Rightarrow> Conversion" where
  "convertRotationRateElectricalToMechanical rate num_poles =
     (if num_poles \<ge> 2 \<and> num_poles mod 2 = 0
      then Returned (rate / real (unat (num_poles div 2)))
      else AssertionFailure 0)"

section \<open>board/board.cpp\<close>

subsection \<open>tryReadDeviceSignature\<close>

text \<open>
  The range-for loop over the copied signature: the first byte that is neither
  \<open>0xFF\<close> nor \<open>0x00\<close> returns true, the end of the array returns false.
\<close>

fun signature_scan :: "uint8_t list \<Rightarrow> bool" where
  "signature_scan [] = False"
| "signature_scan (x # xs) = (if x \<noteq> 0xFF \<and> x \<noteq> 0x00 then True else signature_scan xs)"

text \<open>
  \<^verbatim>\<open>DeviceSignatureStorage\<close> is provided by the linker; its first
  \<^verbatim>\<open>std::tuple_size<DeviceSignature>::value\<close> bytes are the argument. The result
  is the content of \<^verbatim>\<open>out_sign\<close> after the call and the returned flag.
\<close>

definition tryReadDeviceSignature :: "uint8_t list \<Rightarrow> uint8_t list \<times> bool" where
  "tryReadDeviceSignature storage = (storage, signature_scan storage)"

text \<open>
  Absence in the words of the specification: all bytes are the erase value \<open>0xFF\<close>,
  or all bytes are zero.
\<close>

definition all_erased_or_all_zero :: "uint8_t list \<Rightarrow> bool" where
  "all_erased_or_all_zero bs = (list_all (\<lambda>x. x = 0xFF) bs \<or> list_all (\<lambda>x. x = 0x00) bs)"

subsection \<open>BeepingTask\<close>

text \<open>
  Modelled from the spec: \<^verbatim>\<open>math::Range<>\<close> and its \<^verbatim>\<open>constrain\<close> come from
  \<^verbatim>\<open>math/math.hpp\<close>, a header that is not part of this development; the
  specification says that the constructor clamps its inputs into the band given by the
  two limits.
\<close>

record Range =
  lower :: Scalar
  upper :: Scalar

definition constrain :: "Range \<Rightarrow> Scalar \<Rightarrow> Scalar" where
  "constrain r x = (if x < lower r then lower r else if x > upper r then upper r else x)"

definition DurationLimits :: Range where
  "DurationLimits = \<lparr>lower = 0, upper = 3\<rparr>"

definition FrequencyLimits :: Range where
  "FrequencyLimits = \<lparr>lower = 100, upper = 15000\<rparr>"

text \<open>
  Modelled from the spec: \<^verbatim>\<open>Result\<close> is declared in \<^verbatim>\<open>task.hpp\<close>, a header that
  is not part of this development; the specification gives it as one of in-progress, success
  and failure with an exit code.
\<close>

type_synonym ExitCode = int

datatype Result = inProgress | success | failure ExitCode

definition ExitCodeBadHardwareStatus :: ExitCode where
  "ExitCodeBadHardwareStatus = 1"

text \<open>
  Of \<^verbatim>\<open>TaskContext\<close> and \<^verbatim>\<open>board::motor::Status\<close>, both declared in other headers,
  the task reads \<^verbatim>\<open>context_.board.pwm.period\<close> and
  \<^verbatim>\<open>hw_status.power_ok\<close> only.
\<close>

record PWMParameters =
  period :: Scalar

record BoardContext =
  board_pwm :: PWMParameters

record TaskContext =
  board :: BoardContext

record Status =
  power_ok :: bool

type_synonym Vector2 = "Scalar list"
type_synonym Vector3 = "Scalar list"

definition Vector3_Zero :: Vector3 where
  "Vector3_Zero = [0, 0, 0]"

text \<open>The data members; \<open>task_context\<close> is \<^verbatim>\<open>context_\<close>.\<close>

record BeepingTask =
  task_context :: TaskContext
  excitation_period :: Scalar
  remaining_duration :: Scalar
  time_to_next_excitation :: Scalar
  next_phase_index :: unsigned

text \<open>The constructor; \<^verbatim>\<open>next_phase_index_\<close> keeps its default member initialiser.\<close>

definition BeepingTask :: "TaskContext \<Rightarrow> Scalar \<Rightarrow> Scalar \<Rightarrow> BeepingTask" where
  "BeepingTask ctx frequency duration =
     \<lparr>task_context = ctx,
      excitation_period = 1 / constrain FrequencyLimits frequency,
      remaining_duration = constrain DurationLimits duration,
      time_to_next_excitation = 1 / constrain FrequencyLimits frequency,
      next_phase_index = 0\<rparr>"

definition onMainIRQ :: "BeepingTask \<Rightarrow> Scalar \<Rightarrow> Status \<Rightarrow> Result \<times> BeepingTask" where
  "onMainIRQ t period_arg hw_status =
     (if \<not> power_ok hw_status then (failure ExitCodeBadHardwareStatus, t)
      else if remaining_duration t \<le> 0 then (success, t)
      else (inProgress, t))"

text \<open>
  The two subtractions of the PWM period and the addition of the excitation period are
  rounded.
\<close>

definition onNextPWMPeriod ::
  "(real \<Rightarrow> Scalar) \<Rightarrow> BeepingTask \<Rightarrow> Vector2 \<Rightarrow> Scalar \<Rightarrow> (Vector3 \<times> bool) \<times> BeepingTask" where
  "onNextPWMPeriod rnd t phase_currents_ab inverter_voltage =
     (if remaining_duration t \<ge> 0 then
        let pwm_period = period (board_pwm (board (task_context t)));
            t1 = t\<lparr>remaining_duration := rnd (remaining_duration t - pwm_period)\<rparr>;
            t2 = t1\<lparr>time_to_next_excitation := rnd (time_to_next_excitation t1 - pwm_period)\<rparr>
        in if time_to_next_excitation t2 \<le> 0 then
             let t3 = t2\<lparr>time_to_next_excitation :=
                          rnd (time_to_next_excitation t2 + excitation_period t2)\<rparr>;
                 output = Vector3_Zero;
                 i = unat (next_phase_index t3 mod 3);
                 t4 = t3\<lparr>next_phase_index := next_phase_index t3 + 1\<rparr>
             in ((output[i := 1], True), t4)
           else ((Vector3_Zero, True), t2)
      else ((Vector3_Zero, False), t))"




text \<open>
  An excitation pulse is an output with a one on a single phase; \<open>pulse_phase\<close> reads
  the phase off an output and \<open>pulse_phases\<close> lists the phases of the pulses of a run in
  the order of emission.
\<close>

definition pulse_phase :: "Vector3 \<Rightarrow> nat option" where
  "pulse_phase v =
     (if v = [1, 0, 0] then Some 0
      else if v = [0, 1, 0] then Some 1
      else if v = [0, 0, 1] then Some 2
      else None)"

fun pulse_phases :: "(Vector3 \<times> bool) list \<Rightarrow> nat list" where
  "pulse_phases [] = []"
| "pulse_phases (out # outs) =
     (case pulse_phase (fst out) of None \<Rightarrow> pulse_phases outs
      | Some p \<Rightarrow> p # pulse_phases outs)"


section \<open>Properties\<close>

subsection \<open>Helper facts\<close>

lemma word_mod_2_iff: "(w :: unsigned) mod 2 = 0 \<longleftrightarrow> even (unat w)"
proof -
  have "(w mod 2 = 0) = (unat (w mod 2) = 0)" by (simp add: unat_eq_0)
  also have "\<dots> = (unat w mod 2 = 0)" by (simp add: unat_mod)
  finally show ?thesis by presburger
qed

lemma word_ge_2_iff: "(w :: unsigned) \<ge> 2 \<longleftrightarrow> 2 \<le> unat w"
  by (simp add: word_le_nat_alt)

lemma Pi_pos: "0 < Pi"
  by (simp add: Pi_def)

lemma SquareRootOf3_pos: "0 < SquareRootOf3"
  by (simp add: SquareRootOf3_def)

lemma unat_mod_3_less: "unat ((w :: unsigned) mod 3) < 3"
  by (simp add: unat_mod)

subsection \<open>Binary32 rounding\<close>












subsection \<open>CompleteParameterSet\<close>

text \<open>
  C1, as the specification states it, fails: a set whose controller and motor groups
  are valid while its observer group is invalid passes \<open>isValid\<close>.
\<close>

theorem isValid_ignores_observer_counterexample:
  "isValid id id \<lparr>controller = True, motor = True, observer = False, pwm = True\<rparr> \<and>
   \<not> every_group_valid id id id id
        \<lparr>controller = True, motor = True, observer = False, pwm = True\<rparr>"
  by (simp add: isValid_def every_group_valid_def)

text \<open>
  C1, amended: \<open>isValid\<close> is true if and only if the controller group and the motor
  group report valid; the observer and PWM groups are not consulted, so replacing them
  never changes the answer. When all four groups are valid, \<open>isValid\<close> is true.
\<close>

theorem isValid_controller_and_motor_only:
  "(isValid cv mv s \<longleftrightarrow> cv (controller s) \<and> mv (motor s)) \<and>
   isValid cv mv (s\<lparr>observer := ob, pwm := pw\<rparr>) = isValid cv mv s \<and>
   (every_group_valid cv mv ov pv s \<longrightarrow> isValid cv mv s)"
  by (simp add: isValid_def every_group_valid_def)

theorem isValid_controller_and_motor_only_witness:
  "every_group_valid id id id id
     \<lparr>controller = True, motor = True, observer = True, pwm = True\<rparr> \<and>
   isValid id id \<lparr>controller = True, motor = True, observer = True, pwm = True\<rparr>"
  using isValid_controller_and_motor_only
    [of id id "\<lparr>controller = True, motor = True, observer = True, pwm = True\<rparr>" True True id id]
  by (simp add: every_group_valid_def)

subsection \<open>EventCounter\<close>

text \<open>
  C10: \<open>increment\<close> adds one to the 64-bit count modulo \<open>2^64\<close>, \<open>get\<close> returns the
  count and leaves the counter as it was; the count grows strictly while it is below
  \<open>2^64 - 1\<close> and the increment of \<open>2^64 - 1\<close> is \<open>0\<close>.
\<close>

theorem EventCounter_increment_get:
  "fst (get (increment c)) = fst (get c) + 1 \<and>
   unat (fst (get (increment c))) = (unat (fst (get c)) + 1) mod 2 ^ 64 \<and>
   snd (get c) = c \<and>
   (unat (fst (get c)) < 2 ^ 64 - 1 \<longrightarrow> fst (get c) < fst (get (increment c))) \<and>
   (unat (fst (get c)) = 2 ^ 64 - 1 \<longrightarrow> fst (get (increment c)) = 0)"
proof -
  have wrap: "unat (cnt c + 1) = (unat (cnt c) + 1) mod 2 ^ 64"
    by (simp add: unat_word_ariths)
  have up: "cnt c < cnt c + 1" if "unat (cnt c) < 2 ^ 64 - 1"
  proof -
    from that have "(unat (cnt c) + 1) mod 2 ^ 64 = unat (cnt c) + 1"
      by simp
    with wrap have "unat (cnt c) < unat (cnt c + 1)" by simp
    then show ?thesis by (simp add: word_less_nat_alt)
  qed
  have top: "cnt c + 1 = 0" if "unat (cnt c) = 2 ^ 64 - 1"
  proof -
    from that wrap have "unat (cnt c + 1) = 0" by simp
    then show ?thesis by (simp add: unat_eq_0)
  qed
  show ?thesis
    using wrap up top by (simp add: get_def increment_def)
qed

theorem EventCounter_increment_get_witness:
  "unat (fst (get \<lparr>cnt = 41\<rparr>)) < 2 ^ 64 - 1 \<and>
   fst (get \<lparr>cnt = 41\<rparr>) < fst (get (increment \<lparr>cnt = 41\<rparr>)) \<and>
   unat (fst (get \<lparr>cnt = 18446744073709551615\<rparr>)) = 2 ^ 64 - 1 \<and>
   fst (get (increment \<lparr>cnt = 18446744073709551615\<rparr>)) = 0"
  using EventCounter_increment_get [of "\<lparr>cnt = 41\<rparr>"]
        EventCounter_increment_get [of "\<lparr>cnt = 18446744073709551615\<rparr>"]
  by (simp add: get_def)

subsection \<open>Unit conversions\<close>

text \<open>
  With exact operations in place of the rounded ones, the two conversions between flux
  linkage and KV are inverse to each other for a positive flux linkage and an even pole
  count of at least 2. What the rounded operations of the target make of the round
  trip, where a product can overflow, is not decided by this fact.
\<close>

lemma flux_linkage_KV_round_trip_exact:
  assumes "f > 0" and "p \<ge> 2" and "p mod 2 = 0"
  shows "convertKVToFluxLinkage (\<lambda>x. x) (returned_value (convertFluxLinkageToKV (\<lambda>x. x) f p)) p
           = Returned f"
proof -
  let ?C = "20 * SquareRootOf3"
  let ?n = "real (unat p)"
  have "2 \<le> unat p" using assms(2) by (simp add: word_ge_2_iff)
  then have "0 < unat p" by simp
  then have n: "0 < ?n" by (simp only: of_nat_0_less_iff)
  have C: "0 < ?C" using SquareRootOf3_pos by simp
  have kv: "convertFluxLinkageToKV (\<lambda>x. x) f p = Returned (?C / (Pi * f * ?n))"
    using assms by (simp add: convertFluxLinkageToKV_def)
  have pos: "0 < ?C / (Pi * f * ?n)"
    using C n Pi_pos assms(1) by simp
  have "?C / (Pi * (?C / (Pi * f * ?n)) * ?n) = f"
    using C n Pi_pos assms(1) by (simp add: field_simps)
  then show ?thesis
    using kv pos assms by (simp add: convertKVToFluxLinkage_def)
qed

text \<open>
  C7, as the specification states it, fails for \<^verbatim>\<open>convertAngularVelocityToRPM\<close>: the
  function has no pole count among its arguments, reaches no assertion and returns a
  value other than zero at one radian per second.
\<close>

theorem convertAngularVelocityToRPM_counterexample:
  "\<not> asserted (convertAngularVelocityToRPM 1) \<and>
   returned_value (convertAngularVelocityToRPM 1) \<noteq> 0"
  by (simp add: convertAngularVelocityToRPM_def Pi_def)

text \<open>
  C7, amended: for a pole count that is odd or less than 2, each of the three
  conversions that take a pole count (flux linkage to KV, KV to flux linkage,
  electrical to mechanical rotation rate) reaches its assertion and returns zero;
  the conversion of an angular velocity to RPM takes no pole count and returns
  \<open>rate * 60 / (2 * \<pi>)\<close> without an assertion.
\<close>

theorem pole_count_precondition:
  assumes "p < 2 \<or> odd (unat p)"
  shows "convertFluxLinkageToKV rnd f p = AssertionFailure 0 \<and>
         convertKVToFluxLinkage rnd kv p = AssertionFailure 0 \<and>
         convertRotationRateElectricalToMechanical r p = AssertionFailure 0 \<and>
         convertAngularVelocityToRPM r = Returned (r * 60 / (Pi * 2))"
proof -
  have "\<not> (p \<ge> 2 \<and> p mod 2 = 0)"
    using assms by (auto simp: word_mod_2_iff)
  then show ?thesis
    by (simp add: convertFluxLinkageToKV_def convertKVToFluxLinkage_def
        convertRotationRateElectricalToMechanical_def convertAngularVelocityToRPM_def)
qed

theorem pole_count_precondition_witness:
  "((3::unsigned) < 2 \<or> odd (unat (3::unsigned))) \<and>
   convertFluxLinkageToKV rnd32 1 3 = AssertionFailure 0 \<and>
   convertKVToFluxLinkage rnd32 1 3 = AssertionFailure 0 \<and>
   convertRotationRateElectricalToMechanical 1 3 = AssertionFailure 0"
proof -
  have h: "(3::unsigned) < 2 \<or> odd (unat (3::unsigned))" by simp
  show ?thesis using h pole_count_precondition [OF h, of rnd32 1 1 1] by simp
qed

subsection \<open>BeepingTask: construction and the slow-cadence check\<close>

text \<open>
  C5: for every requested frequency the excitation period set by the constructor is
  the reciprocal of the frequency clamped into [100, 15000] Hz; for a frequency outside
  the band it differs from the reciprocal of the raw input.
\<close>

theorem excitation_period_clamped:
  "excitation_period (BeepingTask ctx f d) = 1 / max 100 (min 15000 f) \<and>
   (f < 100 \<or> 15000 < f \<longrightarrow> excitation_period (BeepingTask ctx f d) \<noteq> 1 / f)"
proof -
  have ep: "excitation_period (BeepingTask ctx f d) = 1 / max 100 (min 15000 f)"
    by (simp add: BeepingTask_def constrain_def FrequencyLimits_def)
  have low: "1 / max 100 (min 15000 f) \<noteq> 1 / f" if "f < 100"
  proof -
    from that have "max 100 (min 15000 f) = 100" by simp
    moreover have "1 / f \<noteq> 1 / 100" using that by (cases "f = 0") (simp_all add: field_simps)
    ultimately show ?thesis using that by simp
  qed
  have high: "1 / max 100 (min 15000 f) \<noteq> 1 / f" if "15000 < f"
  proof -
    from that have "max 100 (min 15000 f) = 15000" by simp
    moreover have "1 / f \<noteq> 1 / 15000" using that by (simp add: field_simps)
    ultimately show ?thesis using that by simp
  qed
  show ?thesis using ep low high by auto
qed

theorem excitation_period_clamped_witness:
  "((20000::real) < 100 \<or> 15000 < (20000::real)) \<and>
   excitation_period (BeepingTask \<lparr>board = \<lparr>board_pwm = \<lparr>period = 1 / 20000\<rparr>\<rparr>\<rparr> 20000 1)
     = 1 / 15000 \<and>
   excitation_period (BeepingTask \<lparr>board = \<lparr>board_pwm = \<lparr>period = 1 / 20000\<rparr>\<rparr>\<rparr> 20000 1)
     \<noteq> 1 / 20000"
  using excitation_period_clamped [of "\<lparr>board = \<lparr>board_pwm = \<lparr>period = 1 / 20000\<rparr>\<rparr>\<rparr>" 20000 1]
  by simp

text \<open>
  C2: for every task state and hardware status, \<open>onMainIRQ\<close> returns failure with the
  fixed exit code 1 when \<open>power_ok\<close> is false, whatever the remaining duration;
  otherwise success when the remaining duration is zero or below, and in-progress
  otherwise. The task is left unchanged.
\<close>

theorem onMainIRQ_result:
  "(\<not> power_ok hw \<longrightarrow> fst (onMainIRQ t p hw) = failure 1) \<and>
   (power_ok hw \<and> remaining_duration t \<le> 0 \<longrightarrow> fst (onMainIRQ t p hw) = success) \<and>
   (power_ok hw \<and> remaining_duration t > 0 \<longrightarrow> fst (onMainIRQ t p hw) = inProgress) \<and>
   snd (onMainIRQ t p hw) = t"
  by (simp add: onMainIRQ_def ExitCodeBadHardwareStatus_def)

theorem onMainIRQ_result_witness:
  "\<not> power_ok \<lparr>power_ok = False\<rparr> \<and>
   fst (onMainIRQ (BeepingTask \<lparr>board = \<lparr>board_pwm = \<lparr>period = 1 / 20000\<rparr>\<rparr>\<rparr> 1000 0) (1 / 1000)
          \<lparr>power_ok = False\<rparr>) = failure 1 \<and>
   power_ok \<lparr>power_ok = True\<rparr> \<and>
   remaining_duration (BeepingTask \<lparr>board = \<lparr>board_pwm = \<lparr>period = 1 / 20000\<rparr>\<rparr>\<rparr> 1000 0) \<le> 0 \<and>
   fst (onMainIRQ (BeepingTask \<lparr>board = \<lparr>board_pwm = \<lparr>period = 1 / 20000\<rparr>\<rparr>\<rparr> 1000 0) (1 / 1000)
          \<lparr>power_ok = True\<rparr>) = success \<and>
   remaining_duration (BeepingTask \<lparr>board = \<lparr>board_pwm = \<lparr>period = 1 / 20000\<rparr>\<rparr>\<rparr> 1000 1) > 0 \<and>
   fst (onMainIRQ (BeepingTask \<lparr>board = \<lparr>board_pwm = \<lparr>period = 1 / 20000\<rparr>\<rparr>\<rparr> 1000 1) (1 / 1000)
          \<lparr>power_ok = True\<rparr>) = inProgress"
  using onMainIRQ_result [of "\<lparr>power_ok = False\<rparr>"
          "BeepingTask \<lparr>board = \<lparr>board_pwm = \<lparr>period = 1 / 20000\<rparr>\<rparr>\<rparr> 1000 0" "1 / 1000"]
        onMainIRQ_result [of "\<lparr>power_ok = True\<rparr>"
          "BeepingTask \<lparr>board = \<lparr>board_pwm = \<lparr>period = 1 / 20000\<rparr>\<rparr>\<rparr> 1000 0" "1 / 1000"]
        onMainIRQ_result [of "\<lparr>power_ok = True\<rparr>"
          "BeepingTask \<lparr>board = \<lparr>board_pwm = \<lparr>period = 1 / 20000\<rparr>\<rparr>\<rparr> 1000 1" "1 / 1000"]
  by (simp add: BeepingTask_def constrain_def DurationLimits_def)

subsection \<open>BeepingTask: the output of one PWM period\<close>

text \<open>
  C9: for every task state and every input, the vector returned by \<open>onNextPWMPeriod\<close>
  is the zero vector or one of the three standard basis vectors, so every component
  is 0 or 1. This holds for every rounding of the countdown.
\<close>

theorem onNextPWMPeriod_output_shape:
  "fst (fst (onNextPWMPeriod rnd t i v)) = [0, 0, 0] \<or>
   fst (fst (onNextPWMPeriod rnd t i v)) = [1, 0, 0] \<or>
   fst (fst (onNextPWMPeriod rnd t i v)) = [0, 1, 0] \<or>
   fst (fst (onNextPWMPeriod rnd t i v)) = [0, 0, 1]"
proof -
  have "unat (next_phase_index t mod 3) < 3" by (rule unat_mod_3_less)
  then consider "unat (next_phase_index t mod 3) = 0" | "unat (next_phase_index t mod 3) = 1"
    | "unat (next_phase_index t mod 3) = 2" by linarith
  then show ?thesis
    by cases (simp_all add: onNextPWMPeriod_def Let_def Vector3_Zero_def)
qed

subsection \<open>tryReadDeviceSignature\<close>

lemma signature_scan_iff:
  "signature_scan bs \<longleftrightarrow> \<not> list_all (\<lambda>x. x = 0xFF \<or> x = 0x00) bs"
  by (induction bs) auto

text \<open>
  C8, as the specification states it, fails: a region of 128 bytes that starts with a
  zero byte and continues with \<open>0xFF\<close> is neither all \<open>0xFF\<close> nor all zero, and the
  signature is reported absent.
\<close>

theorem signature_mixed_counterexample:
  "snd (tryReadDeviceSignature (0x00 # replicate 127 0xFF)) = False \<and>
   \<not> all_erased_or_all_zero (0x00 # replicate 127 0xFF)"
  by (simp add: tryReadDeviceSignature_def signature_scan_iff all_erased_or_all_zero_def
      list_all_iff)

text \<open>
  C8, amended: \<open>tryReadDeviceSignature\<close> copies the region and reports the signature
  absent exactly when every byte of the region is \<open>0xFF\<close> or \<open>0x00\<close>, each byte on
  its own, so also for a mixture of the two values; it reports the signature present
  exactly when some byte is neither. A region of all \<open>0xFF\<close> or of all zero is
  reported absent.
\<close>

theorem tryReadDeviceSignature_present:
  "fst (tryReadDeviceSignature bs) = bs \<and>
   snd (tryReadDeviceSignature bs) = (\<not> list_all (\<lambda>x. x = 0xFF \<or> x = 0x00) bs) \<and>
   (all_erased_or_all_zero bs \<longrightarrow> \<not> snd (tryReadDeviceSignature bs))"
proof -
  have "list_all (\<lambda>x. x = 0xFF \<or> x = 0x00) bs" if "all_erased_or_all_zero bs"
    using that by (auto simp: all_erased_or_all_zero_def list_all_iff)
  then show ?thesis
    by (auto simp: tryReadDeviceSignature_def signature_scan_iff)
qed

theorem tryReadDeviceSignature_present_witness:
  "all_erased_or_all_zero (replicate 128 0xFF) \<and>
   \<not> snd (tryReadDeviceSignature (replicate 128 0xFF)) \<and>
   snd (tryReadDeviceSignature (replicate 127 0xFF @ [0x5A]))"
  using tryReadDeviceSignature_present [of "replicate 128 0xFF"]
        tryReadDeviceSignature_present [of "replicate 127 0xFF @ [0x5A]"]
  by (simp add: all_erased_or_all_zero_def list_all_iff)

subsection \<open>BeepingTask: the driver-active flag over successive PWM periods\<close>














subsection \<open>BeepingTask: the order of the excited phases\<close>


lemma pulse_phase_unit:
  "i < 3 \<Longrightarrow> pulse_phase (Vector3_Zero[i := 1]) = Some i"
proof -
  assume "i < 3"
  then consider "i = 0" | "i = 1" | "i = 2" by linarith
  then show ?thesis
    by cases (simp_all add: pulse_phase_def Vector3_Zero_def)
qed



lemma pulse_phases_excite:
  "pulse_phases ((Vector3_Zero[unat ((w :: unsigned) mod 3) := 1], e) # outs) =
     unat (w mod 3) # pulse_phases outs"
  by (simp add: pulse_phase_unit [OF unat_mod_3_less])


























end
